theory Spec2Isabelle
  imports Complex_Main
begin

section \<open>Values, exceptions and the outside world\<close>

text \<open>
  The script \<^verbatim>\<open>example_text_to_image.py\<close> only moves JSON between an HTTP server,
  the terminal and the file system. A decoded JSON document is a Python object built from
  \<^verbatim>\<open>None\<close>, \<^verbatim>\<open>bool\<close>, \<^verbatim>\<open>int\<close>, \<^verbatim>\<open>float\<close>, \<^verbatim>\<open>str\<close>, \<^verbatim>\<open>list\<close> and \<^verbatim>\<open>dict\<close>. A dict is kept as an
  association list in insertion order (the order \<^verbatim>\<open>json.dumps\<close> writes and iteration
  follows); a key is looked up at its first occurrence. The float literals of the script
  (\<^verbatim>\<open>2.0\<close>, \<^verbatim>\<open>4.0\<close>) are exact, so a float is carried as a rational and stays distinct from
  the int of the same value.
\<close>

datatype json =
    JNull
  | JBool bool
  | JInt int
  | JFloat rat
  | JStr string
  | JList "json list"
  | JObj "(string \<times> json) list"

text \<open>
  The exceptions that can reach the caller: the kinds the libraries raise
  (\<^verbatim>\<open>requests.post\<close>/\<^verbatim>\<open>requests.get\<close> on a transport failure, \<^verbatim>\<open>response.json()\<close> on an
  undecodable body, \<^verbatim>\<open>os.makedirs\<close> and \<^verbatim>\<open>open\<close>/\<^verbatim>\<open>write\<close> on a failure of the file
  system: \<^verbatim>\<open>OSError\<close> with the name of its subclass, such as \<^verbatim>\<open>FileExistsError\<close> or
  \<^verbatim>\<open>IsADirectoryError\<close>), and the ones the interpreter raises when the decoded JSON has not
  the shape the script expects.
\<close>

datatype py_exn =
    RequestException string
  | JSONDecodeError string
  | AttributeError
  | TypeError
  | KeyError string
  | OSError string

record http_response =
  status_code :: int
  content :: string

text \<open>
  A piece of a printed line: literal text, a value formatted by an f-string (\<^verbatim>\<open>str(v)\<close>),
  or a value rendered by \<^verbatim>\<open>json.dumps(v, indent=2)\<close>.
\<close>

datatype piece = Lit string | Fmt json | Dumps json

text \<open>
  A run is the list of its events in the order they happened. A request is recorded when
  it is issued, whether or not an answer comes back. A directory and a file are recorded
  when the call that makes them has returned: \<open>Makedirs path exist_ok\<close> is an
  \<^verbatim>\<open>os.makedirs(path, exist_ok=...)\<close> that did not raise, and \<open>FileWrite name bytes\<close> is a
  \<^verbatim>\<open>with open(name, "wb") as f: f.write(bytes)\<close> that did not raise, so that the file holds
  those bytes. A call of the two that raises leaves no event, only its exception.
\<close>

datatype event =
    HttpPost string json "(string \<times> string) list"
  | HttpGet json "(string \<times> json) list"
  | Print "piece list"
  | Makedirs string bool
  | FileWrite string string

type_synonym trace = "event list"

text \<open>
  What the script cannot decide itself comes from the world, and may depend on everything
  that happened before: the reply to a POST and to a GET (a response, or the exception the
  transport raised), the value of \<^verbatim>\<open>response.json()\<close> (the decoded document, or the
  exception of the decoder), the string \<^verbatim>\<open>datetime.now().strftime("%Y%m%d_%H%M%S")\<close>, and
  whether \<^verbatim>\<open>os.makedirs\<close> and the writing of a file raise (\<open>None\<close> when they return, the
  exception otherwise). The world is not constrained: it may let \<^verbatim>\<open>os.makedirs\<close> fail because
  \<^verbatim>\<open>outputs\<close> is a regular file, and \<^verbatim>\<open>open\<close> fail because the name is a directory. Printing
  is recorded as issued.
\<close>

record world =
  http_post :: "trace \<Rightarrow> string \<Rightarrow> json \<Rightarrow> (string \<times> string) list \<Rightarrow> py_exn + http_response"
  http_get :: "trace \<Rightarrow> json \<Rightarrow> (string \<times> json) list \<Rightarrow> py_exn + http_response"
  response_json :: "http_response \<Rightarrow> py_exn + json"
  now_strftime :: "trace \<Rightarrow> string"
  os_makedirs :: "trace \<Rightarrow> string \<Rightarrow> bool \<Rightarrow> py_exn option"
  write_file :: "trace \<Rightarrow> string \<Rightarrow> string \<Rightarrow> py_exn option"

section \<open>Python primitives the script relies on\<close>

text \<open>Truth value of an object, as \<^verbatim>\<open>if v:\<close> tests it.\<close>

fun truthy :: "json \<Rightarrow> bool" where
  "truthy JNull = False"
| "truthy (JBool b) = b"
| "truthy (JInt n) = (n \<noteq> 0)"
| "truthy (JFloat x) = (x \<noteq> 0)"
| "truthy (JStr s) = (s \<noteq> [])"
| "truthy (JList xs) = (xs \<noteq> [])"
| "truthy (JObj kvs) = (kvs \<noteq> [])"

text \<open>
  \<^verbatim>\<open>v.get(k, d)\<close>: only a dict has the method; a missing key gives the default.
  \<^verbatim>\<open>v.get(k)\<close> is the case \<^verbatim>\<open>d = None\<close>.
\<close>

fun py_get_default :: "json \<Rightarrow> string \<Rightarrow> json \<Rightarrow> py_exn + json" where
  "py_get_default (JObj kvs) k d = Inr (case map_of kvs k of None \<Rightarrow> d | Some v \<Rightarrow> v)"
| "py_get_default _ k d = Inl AttributeError"

definition py_get :: "json \<Rightarrow> string \<Rightarrow> py_exn + json" where
  "py_get v k = py_get_default v k JNull"

text \<open>\<^verbatim>\<open>v[k]\<close> with a string key: a dict raises KeyError on a missing key.\<close>

fun py_getitem :: "json \<Rightarrow> string \<Rightarrow> py_exn + json" where
  "py_getitem (JObj kvs) k = (case map_of kvs k of None \<Rightarrow> Inl (KeyError k) | Some v \<Rightarrow> Inr v)"
| "py_getitem _ k = Inl TypeError"

text \<open>
  The elements a \<^verbatim>\<open>for\<close> loop sees: the items of a list, the keys of a dict, the
  one-character strings of a str; anything else is not iterable.
\<close>

fun py_iter :: "json \<Rightarrow> py_exn + json list" where
  "py_iter (JList xs) = Inr xs"
| "py_iter (JObj kvs) = Inr (map (\<lambda>kv. JStr (fst kv)) kvs)"
| "py_iter (JStr s) = Inr (map (\<lambda>c. JStr [c]) s)"
| "py_iter _ = Inl TypeError"

text \<open>Decimal rendering of a non-negative int, as an f-string formats the loop index.\<close>

definition digit_char :: "nat \<Rightarrow> char" where
  "digit_char d = ''0123456789'' ! d"

function str_nat :: "nat \<Rightarrow> string" where
  "str_nat n = (if n < 10 then [digit_char n] else str_nat (n div 10) @ [digit_char (n mod 10)])"
  by pat_completeness auto
termination
  by (relation "measure (\<lambda>n. n)") auto

declare str_nat.simps [simp del]

text \<open>Reading a decimal numeral back, most significant digit first.\<close>

definition digit_value :: "char \<Rightarrow> nat" where
  "digit_value c = of_char c - 48"

definition nat_of_decimal :: "string \<Rightarrow> nat" where
  "nat_of_decimal s = foldl (\<lambda>acc c. 10 * acc + digit_value c) 0 s"

section \<open>The script\<close>

definition API_URL :: string where
  "API_URL = ''http://127.0.0.1:8888''"

text \<open>
  The dict \<^verbatim>\<open>params\<close> of \<^verbatim>\<open>text_to_image\<close>, after the default of \<^verbatim>\<open>style_selections\<close> has
  been filled in.
\<close>

definition text_to_image_params :: "string \<Rightarrow> string \<Rightarrow> string list \<Rightarrow> bool \<Rightarrow> json" where
  "text_to_image_params prompt negative_prompt style_selections async_process =
     JObj [(''prompt'', JStr prompt),
           (''negative_prompt'', JStr negative_prompt),
           (''style_selections'', JList (map JStr style_selections)),
           (''performance_selection'', JStr ''Quality''),
           (''aspect_ratios_selection'', JStr ''1152*896''),
           (''image_number'', JInt 1),
           (''image_seed'', JInt (- 1)),
           (''sharpness'', JFloat 2),
           (''guidance_scale'', JFloat 4),
           (''async_process'', JBool async_process),
           (''save_extension'', JStr ''png'')]"

text \<open>
  \<^verbatim>\<open>text_to_image(prompt, negative_prompt="", style_selections=None, async_process=True)\<close>.
  An argument the caller leaves out is \<open>None\<close>; for \<^verbatim>\<open>style_selections\<close> that is also the
  value \<^verbatim>\<open>None\<close> passed on purpose, which the body replaces. The function takes the trace
  so far and returns the trace extended by its request, with the value it returns or the
  exception it raises.
\<close>

definition text_to_image ::
  "world \<Rightarrow> trace \<Rightarrow> string \<Rightarrow> string option \<Rightarrow> string list option \<Rightarrow> bool option
     \<Rightarrow> trace \<times> (py_exn + json)" where
  "text_to_image w h prompt negative_prompt style_selections async_process =
     (let negative_prompt = (case negative_prompt of None \<Rightarrow> [] | Some s \<Rightarrow> s);
          async_process = (case async_process of None \<Rightarrow> True | Some b \<Rightarrow> b);
          style_selections =
            (case style_selections of None \<Rightarrow> [''Fooocus V2''] | Some s \<Rightarrow> s);
          params = text_to_image_params prompt negative_prompt style_selections async_process;
          url = API_URL @ ''/v1/generation/text-to-image'';
          headers = [(''Content-Type'', ''application/json'')]
      in case http_post w h url params headers of
           Inl e \<Rightarrow> (h @ [HttpPost url params headers], Inl e)
         | Inr response \<Rightarrow> (h @ [HttpPost url params headers], response_json w response))"

text \<open>\<^verbatim>\<open>check_job_status(job_id)\<close>.\<close>

definition check_job_status :: "world \<Rightarrow> trace \<Rightarrow> json \<Rightarrow> trace \<times> (py_exn + json)" where
  "check_job_status w h job_id =
     (let url = JStr (API_URL @ ''/v1/generation/query-job'');
          params = [(''job_id'', job_id)]
      in case http_get w h url params of
           Inl e \<Rightarrow> (h @ [HttpGet url params], Inl e)
         | Inr response \<Rightarrow> (h @ [HttpGet url params], response_json w response))"

text \<open>
  The body of the loop \<^verbatim>\<open>for idx, result in enumerate(job_status["job_result"])\<close> of
  \<^verbatim>\<open>main\<close>, for one pair.
\<close>

definition main_loop_body :: "world \<Rightarrow> trace \<Rightarrow> nat \<Rightarrow> json \<Rightarrow> trace \<times> (py_exn + unit)" where
  "main_loop_body w h idx result =
     (case py_get result ''url'' of
        Inl e \<Rightarrow> (h, Inl e)
      | Inr u \<Rightarrow>
          if truthy u then
            (case py_getitem result ''url'' of
               Inl e \<Rightarrow> (h, Inl e)
             | Inr url \<Rightarrow>
                 (let h1 = h @ [Print [Lit ''Image URL: '', Fmt url]] in
                  case py_get_default result ''seed'' (JStr ''N/A'') of
                    Inl e \<Rightarrow> (h1, Inl e)
                  | Inr seed \<Rightarrow>
                      (let h2 = h1 @ [Print [Lit ''Seed: '', Fmt seed]] in
                       case py_getitem result ''url'' of
                         Inl e \<Rightarrow> (h2, Inl e)
                       | Inr url' \<Rightarrow>
                           (case http_get w h2 url' [] of
                              Inl e \<Rightarrow> (h2 @ [HttpGet url' []], Inl e)
                            | Inr image_response \<Rightarrow>
                                (let h3 = h2 @ [HttpGet url' []] in
                                 if status_code image_response = 200 then
                                   (let timestamp = now_strftime w h3;
                                        filename = ''outputs/image_'' @ timestamp @ ''_''
                                                     @ str_nat idx @ ''.png''
                                    in case write_file w h3 filename (content image_response) of
                                         Some e \<Rightarrow> (h3, Inl e)
                                       | None \<Rightarrow>
                                           (h3 @ [FileWrite filename (content image_response),
                                                  Print [Lit ''Image saved to '', Lit filename]],
                                            Inr ()))
                                 else (h3, Inr ()))))))
          else (h, Inr ()))"

text \<open>The loop itself: the pairs in order, stopping at the first exception.\<close>

fun main_loop :: "world \<Rightarrow> trace \<Rightarrow> (nat \<times> json) list \<Rightarrow> trace \<times> (py_exn + unit)" where
  "main_loop w h [] = (h, Inr ())"
| "main_loop w h ((idx, result) # rest) =
     (case main_loop_body w h idx result of
        (h', Inl e) \<Rightarrow> (h', Inl e)
      | (h', Inr _) \<Rightarrow> main_loop w h' rest)"

text \<open>The block of \<^verbatim>\<open>main\<close> guarded by \<^verbatim>\<open>if job_status.get("job_result"):\<close>.\<close>

definition main_results :: "world \<Rightarrow> trace \<Rightarrow> json \<Rightarrow> trace \<times> (py_exn + unit)" where
  "main_results w h job_status =
     (case py_get job_status ''job_result'' of
        Inl e \<Rightarrow> (h, Inl e)
      | Inr r \<Rightarrow>
          if truthy r then
            (case py_getitem job_status ''job_result'' of
               Inl e \<Rightarrow> (h, Inl e)
             | Inr job_result \<Rightarrow>
                 (case py_iter job_result of
                    Inl e \<Rightarrow> (h, Inl e)
                  | Inr items \<Rightarrow> main_loop w h (List.enumerate 0 items)))
          else (h, Inr ()))"

text \<open>The block of \<^verbatim>\<open>main\<close> guarded by \<^verbatim>\<open>if response.get("job_id"):\<close>.\<close>

definition main_job :: "world \<Rightarrow> trace \<Rightarrow> json \<Rightarrow> trace \<times> (py_exn + unit)" where
  "main_job w h response =
     (case py_getitem response ''job_id'' of
        Inl e \<Rightarrow> (h, Inl e)
      | Inr job_id \<Rightarrow>
          (let h0 = h @ [Print [Lit [CHR 0x0A], Lit ''Job ID: '', Fmt job_id],
                         Print [Lit ''Checking job status...'']]
           in case os_makedirs w h0 ''outputs'' True of
                Some e \<Rightarrow> (h0, Inl e)
              | None \<Rightarrow>
                  (let h1 = h0 @ [Makedirs ''outputs'' True]
                   in case check_job_status w h1 job_id of
                        (h2, Inl e) \<Rightarrow> (h2, Inl e)
                      | (h2, Inr job_status) \<Rightarrow>
                          (let h3 = h2 @ [Print [Dumps job_status]] in
                           case py_get job_status ''job_stage'' of
                             Inl e \<Rightarrow> (h3, Inl e)
                           | Inr stage \<Rightarrow>
                               (let h4 =
                                      (if stage = JStr ''PENDING'' \<or> stage = JStr ''RUNNING'' then
                                         h3 @ [Print [Lit ''Job is still processing. Check status later with:''],
                                               Print [Lit ''curl '', Lit API_URL,
                                                      Lit ''/v1/generation/query-job?job_id='',
                                                      Fmt job_id]]
                                       else h3)
                                in main_results w h4 job_status)))))"

text \<open>\<^verbatim>\<open>main()\<close>, started on the empty trace.\<close>

definition main_prompt :: string where
  "main_prompt = ''A beautiful landscape with mountains, a lake, and a sunset''"

definition main_negative_prompt :: string where
  "main_negative_prompt = ''ugly, blurry, low quality''"

definition main :: "world \<Rightarrow> trace \<times> (py_exn + unit)" where
  "main w =
     (let h0 = [Print [Lit ''Sending text-to-image request with prompt: '', Lit [CHR 0x27],
                       Lit main_prompt, Lit [CHR 0x27]]]
      in case text_to_image w h0 main_prompt (Some main_negative_prompt) None None of
           (h1, Inl e) \<Rightarrow> (h1, Inl e)
         | (h1, Inr response) \<Rightarrow>
             (let h2 = h1 @ [Print [Dumps response]] in
              case py_get response ''job_id'' of
                Inl e \<Rightarrow> (h2, Inl e)
              | Inr j \<Rightarrow> if truthy j then main_job w h2 response else (h2, Inr ())))"

section \<open>Reading a trace\<close>

text \<open>The JSON bodies that were posted, in order.\<close>

fun posted :: "event \<Rightarrow> json list" where
  "posted (HttpPost u b hs) = [b]"
| "posted _ = []"

definition posted_bodies :: "trace \<Rightarrow> json list" where
  "posted_bodies h = concat (map posted h)"

text \<open>The keys of a dict, in order.\<close>

fun json_keys :: "json \<Rightarrow> string list" where
  "json_keys (JObj kvs) = map fst kvs"
| "json_keys _ = []"



fun is_file_write :: "event \<Rightarrow> bool" where
  "is_file_write (FileWrite n c) = True"
| "is_file_write _ = False"

text \<open>The events the loop of \<^verbatim>\<open>main\<close> can issue: a print, a GET without parameters, a file.\<close>

fun loop_event :: "event \<Rightarrow> bool" where
  "loop_event (Print ps) = True"
| "loop_event (HttpGet u ps) = (ps = [])"
| "loop_event (FileWrite n c) = True"
| "loop_event _ = False"

text \<open>
  The dict \<^verbatim>\<open>params\<close> as \<^verbatim>\<open>text_to_image\<close> builds it from its arguments, the omitted ones
  replaced by their defaults.
\<close>

definition text_to_image_body ::
  "string \<Rightarrow> string option \<Rightarrow> string list option \<Rightarrow> bool option \<Rightarrow> json" where
  "text_to_image_body prompt negative_prompt style_selections async_process =
     text_to_image_params prompt
       (case negative_prompt of None \<Rightarrow> [] | Some s \<Rightarrow> s)
       (case style_selections of None \<Rightarrow> [''Fooocus V2''] | Some s \<Rightarrow> s)
       (case async_process of None \<Rightarrow> True | Some b \<Rightarrow> b)"

text \<open>
  Names for the events of \<^verbatim>\<open>main\<close> that do not depend on the world, and for the outcome of
  its one call of \<^verbatim>\<open>text_to_image\<close>: the line printed first, the request of the call
  \<^verbatim>\<open>text_to_image(prompt, negative_prompt)\<close>, the two lines printed after the test of
  \<^verbatim>\<open>job_id\<close>, the same with the directory made, the poll, and the two lines of the retry
  hint.
\<close>

definition main_banner :: event where
  "main_banner = Print [Lit ''Sending text-to-image request with prompt: '', Lit [CHR 0x27],
                        Lit main_prompt, Lit [CHR 0x27]]"

definition main_request :: event where
  "main_request =
     HttpPost (API_URL @ ''/v1/generation/text-to-image'')
       (text_to_image_params main_prompt main_negative_prompt [''Fooocus V2''] True)
       [(''Content-Type'', ''application/json'')]"

definition main_submit :: "world \<Rightarrow> py_exn + json" where
  "main_submit w =
     snd (text_to_image w [main_banner] main_prompt (Some main_negative_prompt) None None)"

definition job_lines :: "json \<Rightarrow> event list" where
  "job_lines job_id =
     [Print [Lit [CHR 0x0A], Lit ''Job ID: '', Fmt job_id],
      Print [Lit ''Checking job status...'']]"

definition job_prelude :: "json \<Rightarrow> event list" where
  "job_prelude job_id = job_lines job_id @ [Makedirs ''outputs'' True]"

text \<open>
  What \<^verbatim>\<open>os.makedirs("outputs", exist_ok=True)\<close> does in a run of \<^verbatim>\<open>main\<close> that has printed
  the response and the two lines for this job id.
\<close>

definition main_makedirs :: "world \<Rightarrow> json \<Rightarrow> json \<Rightarrow> py_exn option" where
  "main_makedirs w response job_id =
     os_makedirs w ([main_banner, main_request, Print [Dumps response]] @ job_lines job_id)
       ''outputs'' True"

definition poll_request :: "json \<Rightarrow> event" where
  "poll_request job_id =
     HttpGet (JStr (API_URL @ ''/v1/generation/query-job'')) [(''job_id'', job_id)]"

definition retry_hint :: "json \<Rightarrow> event list" where
  "retry_hint job_id =
     [Print [Lit ''Job is still processing. Check status later with:''],
      Print [Lit ''curl '', Lit API_URL, Lit ''/v1/generation/query-job?job_id='', Fmt job_id]]"

section \<open>Concrete worlds\<close>

text \<open>
  A server that accepts the job as \<^verbatim>\<open>abc\<close> and reports it finished with three results:
  one whose image is served, one without a URL, one whose URL answers 404.
\<close>

definition demo_results :: "json list" where
  "demo_results =
     [JObj [(''url'', JStr ''http://127.0.0.1:8888/files/a.png''), (''seed'', JInt 7)],
      JObj [(''seed'', JInt 8)],
      JObj [(''url'', JStr ''http://127.0.0.1:8888/files/b.png'')]]"

definition demo_world :: world where
  "demo_world =
     \<lparr> http_post = (\<lambda>h u b hs. Inr \<lparr>status_code = 200, content = ''J''\<rparr>),
       http_get = (\<lambda>h u ps.
          if ps \<noteq> [] then Inr \<lparr>status_code = 200, content = ''S''\<rparr>
          else if u = JStr ''http://127.0.0.1:8888/files/a.png''
               then Inr \<lparr>status_code = 200, content = ''PNGDATA''\<rparr>
          else Inr \<lparr>status_code = 404, content = ''not found''\<rparr>),
       response_json = (\<lambda>r.
          if content r = ''J'' then Inr (JObj [(''job_id'', JStr ''abc'')])
          else if content r = ''S'' then
            Inr (JObj [(''job_stage'', JStr ''SUCCESS''), (''job_result'', JList demo_results)])
          else Inl (JSONDecodeError ''Expecting value'')),
       now_strftime = (\<lambda>h. ''20240101_120000''),
       os_makedirs = (\<lambda>h p ok. None),
       write_file = (\<lambda>h n c. None) \<rparr>"

text \<open>A server that cannot be reached: every request raises.\<close>

definition down_world :: world where
  "down_world =
     \<lparr> http_post = (\<lambda>h u b hs. Inl (RequestException ''Connection refused'')),
       http_get = (\<lambda>h u ps. Inl (RequestException ''Connection refused'')),
       response_json = (\<lambda>r. Inl (JSONDecodeError ''Expecting value'')),
       now_strftime = (\<lambda>h. ''20240101_120000''),
       os_makedirs = (\<lambda>h p ok. None),
       write_file = (\<lambda>h n c. None) \<rparr>"

text \<open>A server that answers every request with a page that is not JSON.\<close>

definition garbled_world :: world where
  "garbled_world =
     \<lparr> http_post = (\<lambda>h u b hs. Inr \<lparr>status_code = 502, content = ''<html>''\<rparr>),
       http_get = (\<lambda>h u ps. Inr \<lparr>status_code = 502, content = ''<html>''\<rparr>),
       response_json = (\<lambda>r. Inl (JSONDecodeError ''Expecting value'')),
       now_strftime = (\<lambda>h. ''20240101_120000''),
       os_makedirs = (\<lambda>h p ok. None),
       write_file = (\<lambda>h n c. None) \<rparr>"




text \<open>A server that accepts the job as \<^verbatim>\<open>abc\<close> and reports it still running, without results.\<close>

definition running_world :: world where
  "running_world =
     \<lparr> http_post = (\<lambda>h u b hs. Inr \<lparr>status_code = 200, content = ''J''\<rparr>),
       http_get = (\<lambda>h u ps. Inr \<lparr>status_code = 200, content = ''R''\<rparr>),
       response_json = (\<lambda>r.
          if content r = ''J'' then Inr (JObj [(''job_id'', JStr ''abc'')])
          else Inr (JObj [(''job_stage'', JStr ''RUNNING'')])),
       now_strftime = (\<lambda>h. ''20240101_120000''),
       os_makedirs = (\<lambda>h p ok. None),
       write_file = (\<lambda>h n c. None) \<rparr>"



section \<open>Basic facts\<close>

subsection \<open>The two request functions\<close>

text \<open>
  Both request functions issue exactly one request and hand back what the world gave
  them: the lets of their definitions, unfolded.
\<close>

lemma text_to_image_eq:
  "text_to_image w h p np ss ap =
     (h @ [HttpPost (API_URL @ ''/v1/generation/text-to-image'')
             (text_to_image_params p (case np of None \<Rightarrow> [] | Some s \<Rightarrow> s)
                (case ss of None \<Rightarrow> [''Fooocus V2''] | Some s \<Rightarrow> s)
                (case ap of None \<Rightarrow> True | Some b \<Rightarrow> b))
             [(''Content-Type'', ''application/json'')]],
      case http_post w h (API_URL @ ''/v1/generation/text-to-image'')
             (text_to_image_params p (case np of None \<Rightarrow> [] | Some s \<Rightarrow> s)
                (case ss of None \<Rightarrow> [''Fooocus V2''] | Some s \<Rightarrow> s)
                (case ap of None \<Rightarrow> True | Some b \<Rightarrow> b))
             [(''Content-Type'', ''application/json'')] of
        Inl e \<Rightarrow> Inl e | Inr r \<Rightarrow> response_json w r)"
  by (simp add: text_to_image_def Let_def split: sum.splits)

lemma text_to_image_body_eq:
  "text_to_image w h p np ss ap =
     (h @ [HttpPost (API_URL @ ''/v1/generation/text-to-image'') (text_to_image_body p np ss ap)
             [(''Content-Type'', ''application/json'')]],
      case http_post w h (API_URL @ ''/v1/generation/text-to-image'')
             (text_to_image_body p np ss ap) [(''Content-Type'', ''application/json'')] of
        Inl e \<Rightarrow> Inl e | Inr r \<Rightarrow> response_json w r)"
  by (simp add: text_to_image_eq text_to_image_body_def)

lemma check_job_status_eq:
  "check_job_status w h j =
     (h @ [HttpGet (JStr (API_URL @ ''/v1/generation/query-job'')) [(''job_id'', j)]],
      case http_get w h (JStr (API_URL @ ''/v1/generation/query-job'')) [(''job_id'', j)] of
        Inl e \<Rightarrow> Inl e | Inr r \<Rightarrow> response_json w r)"
  by (simp add: check_job_status_def Let_def split: sum.splits)


lemma params_keys:
  "json_keys (text_to_image_params p n s a) =
     [''prompt'', ''negative_prompt'', ''style_selections'', ''performance_selection'',
      ''aspect_ratios_selection'', ''image_number'', ''image_seed'', ''sharpness'',
      ''guidance_scale'', ''async_process'', ''save_extension'']"
  by (simp add: text_to_image_params_def)

lemma params_values:
  "py_get (text_to_image_params p n s a) ''prompt'' = Inr (JStr p)"
  "py_get (text_to_image_params p n s a) ''negative_prompt'' = Inr (JStr n)"
  "py_get (text_to_image_params p n s a) ''style_selections'' = Inr (JList (map JStr s))"
  "py_get (text_to_image_params p n s a) ''performance_selection'' = Inr (JStr ''Quality'')"
  "py_get (text_to_image_params p n s a) ''aspect_ratios_selection'' = Inr (JStr ''1152*896'')"
  "py_get (text_to_image_params p n s a) ''image_number'' = Inr (JInt 1)"
  "py_get (text_to_image_params p n s a) ''image_seed'' = Inr (JInt (- 1))"
  "py_get (text_to_image_params p n s a) ''sharpness'' = Inr (JFloat 2)"
  "py_get (text_to_image_params p n s a) ''guidance_scale'' = Inr (JFloat 4)"
  "py_get (text_to_image_params p n s a) ''async_process'' = Inr (JBool a)"
  "py_get (text_to_image_params p n s a) ''save_extension'' = Inr (JStr ''png'')"
  by (simp_all add: text_to_image_params_def py_get_def)

subsection \<open>Python primitives\<close>

text \<open>After \<^verbatim>\<open>v.get(k)\<close> gave a true value, \<^verbatim>\<open>v[k]\<close> gives the same value and cannot raise.\<close>

lemma py_get_truthy_getitem:
  "py_get v k = Inr u \<Longrightarrow> truthy u \<Longrightarrow> py_getitem v k = Inr u"
  by (cases v) (auto simp: py_get_def split: option.splits)

lemma str_nat_example: "str_nat 1204 = ''1204''"
  by (simp add: str_nat.simps digit_char_def)

text \<open>
  \<open>str_nat\<close> is the decimal numeral: reading it back gives the number, so two indexes
  never share a rendering.
\<close>

lemma digit_value_digit_char: "d < 10 \<Longrightarrow> digit_value (digit_char d) = d"
proof -
  assume "d < 10"
  then have "d \<in> {0, 1, 2, 3, 4, 5, 6, 7, 8, 9}" by auto
  then show ?thesis
    by (auto simp: digit_value_def digit_char_def)
qed

lemma nat_of_decimal_str_nat: "nat_of_decimal (str_nat n) = n"
proof (induction n rule: str_nat.induct)
  case (1 n)
  show ?case
  proof (cases "n < 10")
    case True
    then show ?thesis
      by (simp add: str_nat.simps [of n] nat_of_decimal_def digit_value_digit_char)
  next
    case False
    with "1" have "nat_of_decimal (str_nat (n div 10)) = n div 10" by simp
    with False show ?thesis
      by (simp add: str_nat.simps [of n] nat_of_decimal_def digit_value_digit_char)
  qed
qed

lemma str_nat_inj: "str_nat m = str_nat n \<Longrightarrow> m = n"
  by (metis nat_of_decimal_str_nat)

subsection \<open>The loop over the results\<close>

text \<open>
  The loop only appends to the trace, and what it appends are prints, GETs without
  parameters and file writes: no POST, no poll, no \<^verbatim>\<open>makedirs\<close>.
\<close>

lemma main_loop_body_events:
  "\<exists>es. fst (main_loop_body w h idx result) = h @ es \<and> list_all loop_event es"
  by (auto simp: main_loop_body_def Let_def split: sum.splits option.splits)

lemma main_loop_events:
  "\<exists>es. fst (main_loop w h xs) = h @ es \<and> list_all loop_event es"
proof (induction xs arbitrary: h)
  case Nil
  then show ?case by simp
next
  case (Cons x xs)
  obtain idx result where x: "x = (idx, result)" by (cases x)
  obtain es where es: "fst (main_loop_body w h idx result) = h @ es" "list_all loop_event es"
    using main_loop_body_events by blast
  show ?case
  proof (cases "main_loop_body w h idx result")
    case (Pair h' r)
    with es have h': "h' = h @ es" by simp
    show ?thesis
    proof (cases r)
      case (Inl e)
      with Pair h' es x show ?thesis by auto
    next
      case (Inr u)
      obtain fs where "fst (main_loop w h' xs) = h' @ fs" "list_all loop_event fs"
        using Cons.IH by blast
      with Pair Inr h' es x show ?thesis by auto
    qed
  qed
qed

lemma main_results_events:
  "\<exists>es. fst (main_results w h st) = h @ es \<and> list_all loop_event es"
  using main_loop_events [of w h]
  by (auto simp: main_results_def split: sum.splits)

lemma loop_events_no_post: "list_all loop_event es \<Longrightarrow> posted_bodies es = []"
  by (induction es) (auto simp: posted_bodies_def elim: loop_event.elims)






lemma main_loop_body_not_saved:
  assumes "map_of kvs ''url'' = Some u" "truthy u"
    and "http_get w (h @ [Print [Lit ''Image URL: '', Fmt u],
                          Print [Lit ''Seed: '',
                                 Fmt (case map_of kvs ''seed'' of None \<Rightarrow> JStr ''N/A'' | Some v \<Rightarrow> v)]])
           u [] = Inr r"
    and "status_code r \<noteq> 200"
  shows "main_loop_body w h idx (JObj kvs) =
           (h @ [Print [Lit ''Image URL: '', Fmt u],
                 Print [Lit ''Seed: '',
                        Fmt (case map_of kvs ''seed'' of None \<Rightarrow> JStr ''N/A'' | Some v \<Rightarrow> v)],
                 HttpGet u []],
            Inr ())"
  using assms by (simp add: main_loop_body_def py_get_def Let_def)

lemma main_loop_body_no_url:
  assumes "map_of kvs ''url'' = None \<or> (\<exists>u. map_of kvs ''url'' = Some u \<and> \<not> truthy u)"
  shows "main_loop_body w h idx (JObj kvs) = (h, Inr ())"
  using assms by (auto simp: main_loop_body_def py_get_def)



subsection \<open>The main flow\<close>

text \<open>
  Once \<^verbatim>\<open>job_id\<close> has been read and the two lines printed, \<^verbatim>\<open>os.makedirs\<close> decides: its
  exception ends the block, and when it returns the directory and the poll follow, and
  after them only events of the loop kind.
\<close>

lemma main_job_makedirs_fails:
  assumes "py_getitem resp ''job_id'' = Inr j"
    and "os_makedirs w (h @ job_lines j) ''outputs'' True = Some e"
  shows "main_job w h resp = (h @ job_lines j, Inl e)"
  using assms by (simp add: main_job_def job_lines_def)

lemma main_job_events:
  assumes "py_getitem resp ''job_id'' = Inr j"
    and "os_makedirs w (h @ job_lines j) ''outputs'' True = None"
  shows "\<exists>es. fst (main_job w h resp) = h @ job_prelude j @ [poll_request j] @ es
              \<and> list_all loop_event es"
proof -
  let ?h1 = "h @ job_prelude j"
  let ?h2 = "?h1 @ [poll_request j]"
  have cjs: "fst (check_job_status w ?h1 j) = ?h2"
    by (simp add: check_job_status_eq poll_request_def)
  show ?thesis
  proof (cases "snd (check_job_status w ?h1 j)")
    case (Inl e)
    with cjs have "check_job_status w ?h1 j = (?h2, Inl e)" by (simp add: prod_eq_iff)
    with assms have "main_job w h resp = (?h2, Inl e)"
      by (simp add: main_job_def job_prelude_def job_lines_def)
    then show ?thesis by simp
  next
    case (Inr st)
    with cjs have c: "check_job_status w ?h1 j = (?h2, Inr st)" by (simp add: prod_eq_iff)
    let ?h3 = "?h2 @ [Print [Dumps st]]"
    show ?thesis
    proof (cases "py_get st ''job_stage''")
      case (Inl e)
      with assms c have "main_job w h resp = (?h3, Inl e)"
        by (simp add: main_job_def job_prelude_def job_lines_def)
      then show ?thesis by simp
    next
      case (Inr stage)
      let ?h4 = "?h3 @ (if stage = JStr ''PENDING'' \<or> stage = JStr ''RUNNING''
                         then retry_hint j else [])"
      from assms c Inr have m: "main_job w h resp = main_results w ?h4 st"
        by (simp add: main_job_def job_prelude_def job_lines_def retry_hint_def)
      obtain es where es: "fst (main_results w ?h4 st) = ?h4 @ es" "list_all loop_event es"
        using main_results_events by blast
      have "list_all loop_event ([Print [Dumps st]] @ (if stage = JStr ''PENDING'' \<or> stage = JStr ''RUNNING''
                         then retry_hint j else []) @ es)"
        using es(2) by (simp add: retry_hint_def)
      moreover have "fst (main_job w h resp) = ?h2 @ ([Print [Dumps st]] @ (if stage = JStr ''PENDING'' \<or> stage = JStr ''RUNNING''
                         then retry_hint j else []) @ es)"
        using m es(1) by simp
      ultimately show ?thesis by (metis append.assoc)
    qed
  qed
qed

text \<open>The ways \<^verbatim>\<open>main\<close> goes on after its call of \<^verbatim>\<open>text_to_image\<close>.\<close>

lemma main_submit_trace:
  "text_to_image w [main_banner] main_prompt (Some main_negative_prompt) None None
     = ([main_banner, main_request], main_submit w)"
  by (simp add: main_submit_def text_to_image_eq main_request_def)

lemma main_raises:
  "main_submit w = Inl e \<Longrightarrow> main w = ([main_banner, main_request], Inl e)"
  using main_submit_trace [of w] by (simp add: main_def main_banner_def)

lemma main_not_dict:
  "main_submit w = Inr resp \<Longrightarrow> py_get resp ''job_id'' = Inl e
     \<Longrightarrow> main w = ([main_banner, main_request, Print [Dumps resp]], Inl e)"
  using main_submit_trace [of w] by (simp add: main_def main_banner_def)

lemma main_no_job:
  "main_submit w = Inr resp \<Longrightarrow> py_get resp ''job_id'' = Inr j \<Longrightarrow> \<not> truthy j
     \<Longrightarrow> main w = ([main_banner, main_request, Print [Dumps resp]], Inr ())"
  using main_submit_trace [of w] by (simp add: main_def main_banner_def)

lemma main_job_taken:
  "main_submit w = Inr resp \<Longrightarrow> py_get resp ''job_id'' = Inr j \<Longrightarrow> truthy j
     \<Longrightarrow> main w = main_job w [main_banner, main_request, Print [Dumps resp]] resp"
  using main_submit_trace [of w] by (simp add: main_def main_banner_def)

lemma main_makedirs_fails:
  assumes "main_submit w = Inr resp" "py_get resp ''job_id'' = Inr j" "truthy j"
    and "main_makedirs w resp j = Some e"
  shows "main w = ([main_banner, main_request, Print [Dumps resp]] @ job_lines j, Inl e)"
proof -
  have "py_getitem resp ''job_id'' = Inr j"
    using assms(2,3) by (rule py_get_truthy_getitem)
  from main_job_makedirs_fails [OF this, of w "[main_banner, main_request, Print [Dumps resp]]" e]
       assms(4)
  show ?thesis
    by (simp add: main_job_taken [OF assms(1-3)] main_makedirs_def)
qed

lemma main_with_job_events:
  assumes "main_submit w = Inr resp" "py_get resp ''job_id'' = Inr j" "truthy j"
    and "main_makedirs w resp j = None"
  shows "\<exists>es. fst (main w) = [main_banner, main_request, Print [Dumps resp]] @ job_prelude j
                @ [poll_request j] @ es \<and> list_all loop_event es"
proof -
  have "py_getitem resp ''job_id'' = Inr j"
    using assms(2,3) by (rule py_get_truthy_getitem)
  from main_job_events [OF this, of w "[main_banner, main_request, Print [Dumps resp]]"]
       assms(4)
  show ?thesis
    by (simp add: main_job_taken [OF assms(1-3)] main_makedirs_def)
qed


lemma main_posted:
  "posted_bodies (fst (main w)) =
     [text_to_image_params main_prompt main_negative_prompt [''Fooocus V2''] True]"
proof (cases "main_submit w")
  case (Inl e)
  then show ?thesis
    by (simp add: main_raises posted_bodies_def main_banner_def main_request_def)
next
  case (Inr resp)
  show ?thesis
  proof (cases "py_get resp ''job_id''")
    case (Inl e)
    with Inr show ?thesis
      by (simp add: main_not_dict posted_bodies_def main_banner_def main_request_def)
  next
    case j: (Inr j)
    show ?thesis
    proof (cases "truthy j")
      case False
      with Inr j show ?thesis
        by (simp add: main_no_job posted_bodies_def main_banner_def main_request_def)
    next
      case True
      show ?thesis
      proof (cases "main_makedirs w resp j")
        case (Some e)
        with Inr j True show ?thesis
          by (simp add: main_makedirs_fails posted_bodies_def main_banner_def main_request_def
              job_lines_def)
      next
        case None
        from main_with_job_events [OF Inr j True None] obtain es where
          es: "fst (main w) = [main_banner, main_request, Print [Dumps resp]] @ job_prelude j
                  @ [poll_request j] @ es" "list_all loop_event es"
          by blast
        have "posted_bodies es = []" using es(2) by (rule loop_events_no_post)
        then have "concat (map posted es) = []" by (simp add: posted_bodies_def)
        then show ?thesis
          by (simp add: es(1) posted_bodies_def main_banner_def main_request_def
              job_prelude_def job_lines_def poll_request_def)
      qed
    qed
  qed
qed














subsection \<open>The concrete worlds, evaluated\<close>










lemma demo_get_b:
  "http_get demo_world h (JStr ''http://127.0.0.1:8888/files/b.png'') []
     = Inr \<lparr>status_code = 404, content = ''not found''\<rparr>"
  by (simp add: demo_world_def)







section \<open>The claims\<close>

subsection \<open>The submission\<close>

text \<open>
  C1 (as amended). For every prompt, negative prompt (the empty string included), list of
  style selections and async flag that the caller provides, \<^verbatim>\<open>text_to_image\<close> issues exactly
  one POST to \<^verbatim>\<open>/v1/generation/text-to-image\<close> with the header
  \<^verbatim>\<open>Content-Type: application/json\<close>, whose JSON body has exactly the eleven keys listed
  below and no other: the four provided values, and the fixed fields
  \<^verbatim>\<open>performance_selection = "Quality"\<close>, \<^verbatim>\<open>aspect_ratios_selection = "1152*896"\<close>,
  \<^verbatim>\<open>image_number = 1\<close>, \<^verbatim>\<open>image_seed = -1\<close>, \<^verbatim>\<open>sharpness = 2.0\<close>, \<^verbatim>\<open>guidance_scale = 4.0\<close>,
  \<^verbatim>\<open>save_extension = "png"\<close>. When the POST is answered, the function returns what
  \<^verbatim>\<open>response.json()\<close> gives for that response. The key of the resolution is
  \<^verbatim>\<open>aspect_ratios_selection\<close>; the body has no key \<^verbatim>\<open>aspect_ratio\<close>.
\<close>

theorem text_to_image_request_body:
  "fst (text_to_image w h p (Some n) (Some s) (Some a)) =
     h @ [HttpPost (API_URL @ ''/v1/generation/text-to-image'') (text_to_image_params p n s a)
            [(''Content-Type'', ''application/json'')]]
   \<and> json_keys (text_to_image_params p n s a) =
       [''prompt'', ''negative_prompt'', ''style_selections'', ''performance_selection'',
        ''aspect_ratios_selection'', ''image_number'', ''image_seed'', ''sharpness'',
        ''guidance_scale'', ''async_process'', ''save_extension'']
   \<and> py_get (text_to_image_params p n s a) ''prompt'' = Inr (JStr p)
   \<and> py_get (text_to_image_params p n s a) ''negative_prompt'' = Inr (JStr n)
   \<and> py_get (text_to_image_params p n s a) ''style_selections'' = Inr (JList (map JStr s))
   \<and> py_get (text_to_image_params p n s a) ''performance_selection'' = Inr (JStr ''Quality'')
   \<and> py_get (text_to_image_params p n s a) ''aspect_ratios_selection'' = Inr (JStr ''1152*896'')
   \<and> py_get (text_to_image_params p n s a) ''image_number'' = Inr (JInt 1)
   \<and> py_get (text_to_image_params p n s a) ''image_seed'' = Inr (JInt (- 1))
   \<and> py_get (text_to_image_params p n s a) ''sharpness'' = Inr (JFloat 2)
   \<and> py_get (text_to_image_params p n s a) ''guidance_scale'' = Inr (JFloat 4)
   \<and> py_get (text_to_image_params p n s a) ''async_process'' = Inr (JBool a)
   \<and> py_get (text_to_image_params p n s a) ''save_extension'' = Inr (JStr ''png'')
   \<and> (\<forall>r. http_post w h (API_URL @ ''/v1/generation/text-to-image'')
              (text_to_image_params p n s a) [(''Content-Type'', ''application/json'')] = Inr r
          \<longrightarrow> snd (text_to_image w h p (Some n) (Some s) (Some a)) = response_json w r)"
  by (simp add: text_to_image_eq params_keys params_values)

text \<open>The amended C1 on the prompt \<^verbatim>\<open>test\<close> with an empty negative prompt.\<close>

theorem text_to_image_request_body_witness:
  "text_to_image demo_world [] ''test'' (Some []) (Some [''Fooocus V2'']) (Some True) =
     ([HttpPost ''http://127.0.0.1:8888/v1/generation/text-to-image''
         (JObj [(''prompt'', JStr ''test''),
                (''negative_prompt'', JStr []),
                (''style_selections'', JList [JStr ''Fooocus V2'']),
                (''performance_selection'', JStr ''Quality''),
                (''aspect_ratios_selection'', JStr ''1152*896''),
                (''image_number'', JInt 1),
                (''image_seed'', JInt (- 1)),
                (''sharpness'', JFloat 2),
                (''guidance_scale'', JFloat 4),
                (''async_process'', JBool True),
                (''save_extension'', JStr ''png'')])
         [(''Content-Type'', ''application/json'')]],
      Inr (JObj [(''job_id'', JStr ''abc'')]))"
proof -
  have post: "http_post demo_world [] (API_URL @ ''/v1/generation/text-to-image'')
      (text_to_image_params ''test'' [] [''Fooocus V2''] True)
      [(''Content-Type'', ''application/json'')] = Inr \<lparr>status_code = 200, content = ''J''\<rparr>"
    by (simp add: demo_world_def)
  have dec: "response_json demo_world \<lparr>status_code = 200, content = ''J''\<rparr>
      = Inr (JObj [(''job_id'', JStr ''abc'')])"
    by (simp add: demo_world_def)
  from text_to_image_request_body [of demo_world "[]" "''test''" "[]" "[''Fooocus V2'']" True]
  have "fst (text_to_image demo_world [] ''test'' (Some []) (Some [''Fooocus V2'']) (Some True)) =
      [HttpPost (API_URL @ ''/v1/generation/text-to-image'')
         (text_to_image_params ''test'' [] [''Fooocus V2''] True)
         [(''Content-Type'', ''application/json'')]]"
    and "snd (text_to_image demo_world [] ''test'' (Some []) (Some [''Fooocus V2'']) (Some True))
      = Inr (JObj [(''job_id'', JStr ''abc'')])"
    using post dec by simp_all
  then show ?thesis
    by (simp add: prod_eq_iff API_URL_def text_to_image_params_def)
qed

text \<open>
  C1 as it was stated names the key \<^verbatim>\<open>aspect_ratio\<close> and allows no key beside the listed
  ones. On the prompt \<^verbatim>\<open>test\<close> with an empty negative prompt the body that is sent has no
  key \<^verbatim>\<open>aspect_ratio\<close>, and has the key \<^verbatim>\<open>aspect_ratios_selection\<close>, which is not in the list.
\<close>

theorem text_to_image_key_counterexample:
  "''aspect_ratio'' \<notin> set (concat (map json_keys (posted_bodies
       (fst (text_to_image demo_world [] ''test'' (Some []) (Some [''Fooocus V2'']) (Some True))))))
   \<and> ''aspect_ratios_selection'' \<in> set (concat (map json_keys (posted_bodies
       (fst (text_to_image demo_world [] ''test'' (Some []) (Some [''Fooocus V2'']) (Some True))))))"
  by (simp add: text_to_image_eq posted_bodies_def params_keys)

text \<open>
  C6. When \<^verbatim>\<open>style_selections\<close> is not provided, the request that \<^verbatim>\<open>text_to_image\<close> sends
  carries the default selection, the one style \<^verbatim>\<open>Fooocus V2\<close>, as its \<^verbatim>\<open>style_selections\<close>,
  whatever the other arguments are and whatever happened before.
\<close>

theorem text_to_image_default_style:
  "map (\<lambda>b. py_get b ''style_selections'')
       (posted_bodies (drop (length h) (fst (text_to_image w h p n None a))))
     = [Inr (JList [JStr ''Fooocus V2''])]"
  by (simp add: text_to_image_eq posted_bodies_def params_values)

text \<open>C6 on a call that passes the prompt only.\<close>

theorem text_to_image_default_style_witness:
  "map (\<lambda>b. py_get b ''style_selections'')
       (posted_bodies (drop (length ([]::trace))
          (fst (text_to_image demo_world [] ''test'' None None None))))
     = [Inr (JList [JStr ''Fooocus V2''])]"
  by (rule text_to_image_default_style)

text \<open>
  C10. When \<^verbatim>\<open>async_process\<close> is omitted, the body that \<^verbatim>\<open>text_to_image\<close> sends has
  \<^verbatim>\<open>async_process = true\<close>; and in every run of \<^verbatim>\<open>main\<close>, whatever the world does, exactly
  one body is posted and its \<^verbatim>\<open>async_process\<close> is \<^verbatim>\<open>true\<close>.
\<close>

theorem async_process_defaults_to_true:
  "map (\<lambda>b. py_get b ''async_process'')
       (posted_bodies (drop (length h) (fst (text_to_image w h p n s None))))
     = [Inr (JBool True)]
   \<and> map (\<lambda>b. py_get b ''async_process'') (posted_bodies (fst (main w))) = [Inr (JBool True)]"
proof -
  have "posted_bodies (drop (length h) (fst (text_to_image w h p n s None))) =
          [text_to_image_body p n s None]"
    by (simp add: text_to_image_body_eq posted_bodies_def)
  moreover have "py_get (text_to_image_body p n s None) ''async_process'' = Inr (JBool True)"
    by (simp add: text_to_image_body_def params_values)
  ultimately show ?thesis
    by (simp add: main_posted params_values)
qed

text \<open>C10 on a call that omits the flag, and on the run of \<^verbatim>\<open>main\<close> against the demo server.\<close>

theorem async_process_defaults_to_true_witness:
  "map (\<lambda>b. py_get b ''async_process'')
       (posted_bodies (drop (length ([]::trace))
          (fst (text_to_image demo_world [] ''test'' (Some []) (Some [''Fooocus V2'']) None))))
     = [Inr (JBool True)]
   \<and> map (\<lambda>b. py_get b ''async_process'') (posted_bodies (fst (main demo_world)))
     = [Inr (JBool True)]"
  by (rule async_process_defaults_to_true)

subsection \<open>The poll\<close>

text \<open>
  C4. For every job id, \<^verbatim>\<open>check_job_status\<close> extends the trace by exactly one event, a GET
  to \<^verbatim>\<open>/v1/generation/query-job\<close> with the job id as the query parameter \<^verbatim>\<open>job_id\<close>, and when
  that GET is answered it returns what \<^verbatim>\<open>response.json()\<close> gives for the response,
  unchanged.
\<close>

theorem check_job_status_request:
  "fst (check_job_status w h job_id) =
     h @ [HttpGet (JStr (API_URL @ ''/v1/generation/query-job'')) [(''job_id'', job_id)]]
   \<and> (\<forall>r. http_get w h (JStr (API_URL @ ''/v1/generation/query-job'')) [(''job_id'', job_id)] = Inr r
          \<longrightarrow> snd (check_job_status w h job_id) = response_json w r)"
  by (simp add: check_job_status_eq)

text \<open>C4 on the job id \<^verbatim>\<open>abc\<close> against the server that reports the job running.\<close>

theorem check_job_status_request_witness:
  "check_job_status running_world [] (JStr ''abc'') =
     ([HttpGet (JStr ''http://127.0.0.1:8888/v1/generation/query-job'') [(''job_id'', JStr ''abc'')]],
      Inr (JObj [(''job_stage'', JStr ''RUNNING'')]))"
proof -
  have get: "http_get running_world [] (JStr (API_URL @ ''/v1/generation/query-job''))
      [(''job_id'', JStr ''abc'')] = Inr \<lparr>status_code = 200, content = ''R''\<rparr>"
    by (simp add: running_world_def)
  have dec: "response_json running_world \<lparr>status_code = 200, content = ''R''\<rparr>
      = Inr (JObj [(''job_stage'', JStr ''RUNNING'')])"
    by (simp add: running_world_def)
  from check_job_status_request [of running_world "[]" "JStr ''abc''"] get dec
  show ?thesis
    by (simp add: prod_eq_iff API_URL_def)
qed

subsection \<open>Failures of the transport and of the decoder\<close>

text \<open>
  C7. When the transport raises, and when the response is received but
  \<^verbatim>\<open>response.json()\<close> raises, \<^verbatim>\<open>text_to_image\<close> and \<^verbatim>\<open>check_job_status\<close> end with that very
  exception. The trace has grown by the one request and nothing else: the request is not
  repeated and nothing is printed.
\<close>

theorem request_failures_propagate:
  "(http_post w h (API_URL @ ''/v1/generation/text-to-image'') (text_to_image_body p np ss ap)
        [(''Content-Type'', ''application/json'')] = Inl e
      \<longrightarrow> text_to_image w h p np ss ap =
            (h @ [HttpPost (API_URL @ ''/v1/generation/text-to-image'')
                    (text_to_image_body p np ss ap) [(''Content-Type'', ''application/json'')]],
             Inl e))
   \<and> (\<forall>r. http_post w h (API_URL @ ''/v1/generation/text-to-image'')
             (text_to_image_body p np ss ap) [(''Content-Type'', ''application/json'')] = Inr r
           \<and> response_json w r = Inl e
      \<longrightarrow> text_to_image w h p np ss ap =
            (h @ [HttpPost (API_URL @ ''/v1/generation/text-to-image'')
                    (text_to_image_body p np ss ap) [(''Content-Type'', ''application/json'')]],
             Inl e))
   \<and> (http_get w h (JStr (API_URL @ ''/v1/generation/query-job'')) [(''job_id'', j)] = Inl e
      \<longrightarrow> check_job_status w h j = (h @ [poll_request j], Inl e))
   \<and> (\<forall>r. http_get w h (JStr (API_URL @ ''/v1/generation/query-job'')) [(''job_id'', j)] = Inr r
           \<and> response_json w r = Inl e
      \<longrightarrow> check_job_status w h j = (h @ [poll_request j], Inl e))"
  by (simp add: text_to_image_body_eq check_job_status_eq poll_request_def)

text \<open>C7 against a server that refuses the connection and one that answers with HTML.\<close>

theorem request_failures_propagate_witness:
  "text_to_image down_world [] ''test'' None None None =
     ([HttpPost (API_URL @ ''/v1/generation/text-to-image'')
         (text_to_image_body ''test'' None None None) [(''Content-Type'', ''application/json'')]],
      Inl (RequestException ''Connection refused''))
   \<and> check_job_status down_world [] (JStr ''abc'') =
     ([poll_request (JStr ''abc'')], Inl (RequestException ''Connection refused''))
   \<and> text_to_image garbled_world [] ''test'' None None None =
     ([HttpPost (API_URL @ ''/v1/generation/text-to-image'')
         (text_to_image_body ''test'' None None None) [(''Content-Type'', ''application/json'')]],
      Inl (JSONDecodeError ''Expecting value''))
   \<and> check_job_status garbled_world [] (JStr ''abc'') =
     ([poll_request (JStr ''abc'')], Inl (JSONDecodeError ''Expecting value''))"
proof -
  have d1: "http_post down_world [] (API_URL @ ''/v1/generation/text-to-image'')
      (text_to_image_body ''test'' None None None) [(''Content-Type'', ''application/json'')]
      = Inl (RequestException ''Connection refused'')"
    by (simp add: down_world_def)
  have d2: "http_get down_world [] (JStr (API_URL @ ''/v1/generation/query-job''))
      [(''job_id'', JStr ''abc'')] = Inl (RequestException ''Connection refused'')"
    by (simp add: down_world_def)
  have g1: "http_post garbled_world [] (API_URL @ ''/v1/generation/text-to-image'')
      (text_to_image_body ''test'' None None None) [(''Content-Type'', ''application/json'')]
      = Inr \<lparr>status_code = 502, content = ''<html>''\<rparr>"
    by (simp add: garbled_world_def)
  have g2: "http_get garbled_world [] (JStr (API_URL @ ''/v1/generation/query-job''))
      [(''job_id'', JStr ''abc'')] = Inr \<lparr>status_code = 502, content = ''<html>''\<rparr>"
    by (simp add: garbled_world_def)
  have g3: "response_json garbled_world \<lparr>status_code = 502, content = ''<html>''\<rparr>
      = Inl (JSONDecodeError ''Expecting value'')"
    by (simp add: garbled_world_def)
  from request_failures_propagate
         [of down_world "[]" "''test''" None None None "RequestException ''Connection refused''"
             "JStr ''abc''"]
       request_failures_propagate
         [of garbled_world "[]" "''test''" None None None "JSONDecodeError ''Expecting value''"
             "JStr ''abc''"]
       d1 d2 g1 g2 g3
  show ?thesis by simp
qed

subsection \<open>The main flow\<close>







subsection \<open>The download\<close>




text \<open>
  C3. For a result whose URL is a true value and answers with a status other than 200, the
  iteration prints URL and seed, issues the GET and ends without an exception; no file is
  written, and the loop goes on with the next entry.
\<close>

theorem download_skips_failed_response:
  assumes "map_of kvs ''url'' = Some u" and "truthy u"
    and "http_get w (h @ [Print [Lit ''Image URL: '', Fmt u],
                          Print [Lit ''Seed: '',
                                 Fmt (case map_of kvs ''seed'' of None \<Rightarrow> JStr ''N/A'' | Some v \<Rightarrow> v)]])
           u [] = Inr r"
    and "status_code r \<noteq> 200"
  shows "main_loop_body w h idx (JObj kvs) =
           (h @ [Print [Lit ''Image URL: '', Fmt u],
                 Print [Lit ''Seed: '',
                        Fmt (case map_of kvs ''seed'' of None \<Rightarrow> JStr ''N/A'' | Some v \<Rightarrow> v)],
                 HttpGet u []],
            Inr ())
       \<and> filter is_file_write (drop (length h) (fst (main_loop_body w h idx (JObj kvs)))) = []
       \<and> main_loop w h ((idx, JObj kvs) # rest) =
           main_loop w
             (h @ [Print [Lit ''Image URL: '', Fmt u],
                   Print [Lit ''Seed: '',
                          Fmt (case map_of kvs ''seed'' of None \<Rightarrow> JStr ''N/A'' | Some v \<Rightarrow> v)],
                   HttpGet u []])
             rest"
  by (simp add: main_loop_body_not_saved [OF assms])

text \<open>C3 on the third result of the demo server, whose URL answers 404.\<close>

theorem download_skips_failed_response_witness:
  "main_loop_body demo_world [] 2 (JObj [(''url'', JStr ''http://127.0.0.1:8888/files/b.png'')]) =
     ([Print [Lit ''Image URL: '', Fmt (JStr ''http://127.0.0.1:8888/files/b.png'')],
       Print [Lit ''Seed: '', Fmt (JStr ''N/A'')],
       HttpGet (JStr ''http://127.0.0.1:8888/files/b.png'') []],
      Inr ())
   \<and> demo_results ! 2 = JObj [(''url'', JStr ''http://127.0.0.1:8888/files/b.png'')]"
proof -
  have url: "map_of [(''url'', JStr ''http://127.0.0.1:8888/files/b.png'')] ''url''
      = Some (JStr ''http://127.0.0.1:8888/files/b.png'')"
    by simp
  have t: "truthy (JStr ''http://127.0.0.1:8888/files/b.png'')" by simp
  have bad: "status_code \<lparr>status_code = 404, content = ''not found''\<rparr> \<noteq> 200" by simp
  from download_skips_failed_response [OF url t demo_get_b bad, of "[]" 2 "[]"]
  show ?thesis
    by (simp add: demo_results_def)
qed

text \<open>
  C8 (as amended). For an entry of \<^verbatim>\<open>job_result\<close> that is a dict whose \<^verbatim>\<open>url\<close> is absent or not
  a true value, the iteration leaves the trace as it was (nothing printed, no GET, no file)
  and raises nothing, and the loop goes on with the next entry.
\<close>

theorem entry_without_url_is_skipped:
  assumes "map_of kvs ''url'' = None \<or> (\<exists>u. map_of kvs ''url'' = Some u \<and> \<not> truthy u)"
  shows "main_loop_body w h idx (JObj kvs) = (h, Inr ())
       \<and> main_loop w h ((idx, JObj kvs) # rest) = main_loop w h rest"
  by (simp add: main_loop_body_no_url [OF assms])

text \<open>C8 on the second result of the demo server, which has no URL, and on an empty URL.\<close>

theorem entry_without_url_is_skipped_witness:
  "main_loop_body demo_world [] 1 (JObj [(''seed'', JInt 8)]) = ([], Inr ())
   \<and> demo_results ! 1 = JObj [(''seed'', JInt 8)]
   \<and> main_loop_body demo_world [] 0 (JObj [(''url'', JStr [])]) = ([], Inr ())"
proof -
  have absent: "map_of [(''seed'', JInt 8)] ''url'' = None
      \<or> (\<exists>u. map_of [(''seed'', JInt 8)] ''url'' = Some u \<and> \<not> truthy u)"
    by simp
  have falsy: "map_of [(''url'', JStr [])] ''url'' = None
      \<or> (\<exists>u. map_of [(''url'', JStr [])] ''url'' = Some u \<and> \<not> truthy u)"
    by simp
  from entry_without_url_is_skipped [OF absent, of demo_world "[]" 1 "[]"]
       entry_without_url_is_skipped [OF falsy, of demo_world "[]" 0 "[]"]
  show ?thesis
    by (simp add: demo_results_def)
qed

text \<open>
  C8 as it was stated covers every entry without a URL. An entry that is null, or a string,
  has no \<^verbatim>\<open>url\<close> field, and the iteration raises \<^verbatim>\<open>AttributeError\<close>; the loop does not go on to
  the entry after it.
\<close>

theorem entry_not_a_dict_counterexample:
  "main_loop_body demo_world [] 0 JNull = ([], Inl AttributeError)
   \<and> main_loop_body demo_world [] 0 (JStr ''http://127.0.0.1:8888/files/a.png'')
       = ([], Inl AttributeError)
   \<and> main_loop demo_world []
       [(0, JNull),
        (1, JObj [(''url'', JStr ''http://127.0.0.1:8888/files/a.png''), (''seed'', JInt 7)])]
       = ([], Inl AttributeError)"
  by (simp add: main_loop_body_def py_get_def)

end
